theory Spec2Isabelle
  imports Main
begin

section \<open>Few-shot helpers for the tabular datasets (torchmeta/datasets/helpers_tabular.py)\<close>

text \<open>
  The module holds one builder, \<open>helper_with_default_tabular\<close>, and two entry points,
  \<open>covertype\<close> and \<open>letter\<close>. The builder resolves defaults in the keyword dictionary,
  constructs the class dataset, wraps it with \<open>ClassSplitter\<close>, seeds the result and
  returns it. The dataset classes, \<open>ClassSplitter\<close> and the \<open>seed\<close> method are imported
  from other modules: they are parameters of the model, and each of them may raise.

  Effects are explicit. Every function returns the list of events it caused, in program
  order, together with its outcome: \<open>Inl\<close> an exception, \<open>Inr\<close> the returned object.
\<close>

subsection \<open>Values, exceptions, events\<close>

text \<open>
  Python values that travel through the keyword dictionary. \<open>NumpyToTorch\<close> is the object
  built by \<open>NumpyToTorch()\<close> and \<open>Categorical w\<close> the one built by \<open>Categorical(w)\<close>;
  both constructors are taken to store their argument and return. \<open>PyObject n\<close> is any
  other object (a user transform, a list of augmentations), identified by \<open>n\<close>.
\<close>

datatype pyval =
    PyNone
  | PyBool bool
  | PyInt int
  | PyStr string
  | NumpyToTorch
  | Categorical pyval
  | PyObject nat

text \<open>
  A \<open>**kwargs\<close> dictionary: keys are strings, \<open>m k = None\<close> is \<open>k not in m\<close>. A key
  bound to Python's \<open>None\<close> is \<open>Some PyNone\<close>.
\<close>

type_synonym kwargs = "string \<rightharpoonup> pyval"

text \<open>
  \<open>TypeError_multiple_values k\<close> is the \<open>TypeError\<close> that the interpreter raises when a
  call receives the argument \<open>k\<close> twice (once by name or position, once through
  \<open>**kwargs\<close>); it is raised by the call itself, before the callee's body runs.
  \<open>Raised c\<close> is any exception raised inside a collaborator.
\<close>

datatype pyexc =
    TypeError_multiple_values string
  | Raised string

text \<open>
  The two warnings of the module, by their message: the one of line 56 and the one of
  lines 102 and 129, whose text is formatted with \<open>ways\<close>. A call of \<open>warnings.warn\<close>
  is recorded as an event and execution goes on, as it does under the interpreter's
  default warning filters.
\<close>

datatype warning =
    Ways_ignored
  | Split_size int

datatype ('d, 't) event =
    Warn warning
  | Klass_call string kwargs
  | ClassSplitter_call 'd bool int int
  | Seed_call 't "int option"

type_synonym 'd klass = "string \<Rightarrow> kwargs \<Rightarrow> pyexc + 'd"

text \<open>
  The imported collaborators. \<open>Covertype\<close> and \<open>Letter\<close> take the folder and the keyword
  arguments; \<open>ClassSplitter\<close> takes the dataset, \<open>shuffle\<close>, \<open>num_train_per_class\<close> and
  \<open>num_test_per_class\<close>; \<open>dataset_seed d s\<close> is \<open>d.seed(s)\<close> and returns the object in
  its new state.
\<close>

record ('d, 't) collaborators =
  Covertype :: "'d klass"
  Letter :: "'d klass"
  ClassSplitter :: "'d \<Rightarrow> bool \<Rightarrow> int \<Rightarrow> int \<Rightarrow> pyexc + 't"
  dataset_seed :: "'t \<Rightarrow> int option \<Rightarrow> pyexc + 't"

type_synonym ('d, 't) run = "('d, 't) event list \<times> (pyexc + 't)"

subsection \<open>Dictionary operations\<close>

definition dict_get :: "kwargs \<Rightarrow> string \<Rightarrow> pyval \<Rightarrow> pyval" where
  \<comment> \<open>\<open>d.get(k, default)\<close>\<close>
  "dict_get d k dflt = (case d k of None \<Rightarrow> dflt | Some v \<Rightarrow> v)"

definition setdefault_from :: "kwargs \<Rightarrow> kwargs \<Rightarrow> string \<Rightarrow> pyval \<Rightarrow> kwargs" where
  \<comment> \<open>\<open>if k not in kwargs: kwargs[k] = defaults.get(k, fallback)\<close>\<close>
  "setdefault_from defaults kwargs k fallback =
     (if kwargs k = None then kwargs(k \<mapsto> dict_get defaults k fallback) else kwargs)"

definition resolve_kwargs :: "kwargs \<Rightarrow> pyval \<Rightarrow> kwargs \<Rightarrow> kwargs" where
  \<comment> \<open>lines 61 to 68: the three defaulting steps, in the order of the source\<close>
  "resolve_kwargs defaults ways kwargs =
     (let kwargs = setdefault_from defaults kwargs ''transform'' NumpyToTorch;
          kwargs = setdefault_from defaults kwargs ''target_transform'' (Categorical ways);
          kwargs = setdefault_from defaults kwargs ''class_augmentations'' PyNone
      in kwargs)"

subsection \<open>The builder\<close>

text \<open>
  The body of \<open>helper_with_default_tabular\<close>, lines 52 to 81. The arguments have the
  types of the docstring and of the entry points' annotations: \<open>shots\<close> and \<open>ways\<close> are
  integers, \<open>test_shots\<close> and \<open>seed\<close> optional integers (\<open>None\<close> is Python's \<open>None\<close>),
  \<open>defaults\<close> an optional mapping. After line 59 \<open>ways\<close> is whatever value the extra
  options held, hence a \<open>pyval\<close>. The call of line 72,
  \<open>klass(folder, num_classes_per_task=ways, **kwargs)\<close>, passes \<open>num_classes_per_task\<close>
  by name and unpacks \<open>kwargs\<close> beside it: when \<open>kwargs\<close> holds that key too, the call
  raises \<open>TypeError\<close> and \<open>klass\<close> is never entered.
\<close>

definition helper_with_default_tabular ::
  "('d, 't) collaborators \<Rightarrow> 'd klass \<Rightarrow> string \<Rightarrow> int \<Rightarrow> int \<Rightarrow> bool \<Rightarrow> int option \<Rightarrow>
     int option \<Rightarrow> kwargs option \<Rightarrow> kwargs \<Rightarrow> ('d, 't) run" where
  "helper_with_default_tabular E klass folder shots ways shuffle test_shots seed defaults kwargs =
     (let defaults = (case defaults of None \<Rightarrow> Map.empty | Some m \<Rightarrow> m);
          tr = (if kwargs ''num_classes_per_task'' = None then [] else [Warn Ways_ignored]);
          ways = (case kwargs ''num_classes_per_task'' of None \<Rightarrow> PyInt ways | Some w \<Rightarrow> w);
          kwargs = resolve_kwargs defaults ways kwargs;
          test_shots = (case test_shots of None \<Rightarrow> shots | Some n \<Rightarrow> n)
      in if kwargs ''num_classes_per_task'' = None
         then
           (let kw = kwargs(''num_classes_per_task'' \<mapsto> ways);
                tr = tr @ [Klass_call folder kw]
            in case klass folder kw of
                 Inl e \<Rightarrow> (tr, Inl e)
               | Inr dataset \<Rightarrow>
                   (let tr = tr @ [ClassSplitter_call dataset shuffle shots test_shots]
                    in case ClassSplitter E dataset shuffle shots test_shots of
                         Inl e \<Rightarrow> (tr, Inl e)
                       | Inr dataset \<Rightarrow>
                           (let tr = tr @ [Seed_call dataset seed]
                            in case dataset_seed E dataset seed of
                                 Inl e \<Rightarrow> (tr, Inl e)
                               | Inr dataset \<Rightarrow> (tr, Inr dataset))))
         else (tr, Inl (TypeError_multiple_values ''num_classes_per_task'')))"

subsection \<open>The entry points\<close>

text \<open>
  Both entry points end with the call
  \<open>helper_with_default_tabular(K, folder, shots, ways, shuffle=shuffle, test_shots=test_shots,
  seed=seed, defaults=None, **kwargs)\<close> (lines 106 and 133). The entry point's own
  \<open>kwargs\<close> cannot hold \<open>folder\<close>, \<open>shots\<close>, \<open>ways\<close>, \<open>shuffle\<close>, \<open>test_shots\<close> or
  \<open>seed\<close>, which are its parameters, but it can hold \<open>defaults\<close> and \<open>klass\<close>. The first
  clashes with the keyword \<open>defaults=None\<close> when the call is assembled, the second with
  the positional \<open>K\<close> when the builder binds its parameters; either way the call raises
  \<open>TypeError\<close> and the builder's body does not run.
\<close>

definition delegate :: "('d, 't) collaborators \<Rightarrow> 'd klass \<Rightarrow> string \<Rightarrow> int \<Rightarrow> int \<Rightarrow> bool \<Rightarrow>
     int option \<Rightarrow> int option \<Rightarrow> kwargs \<Rightarrow> ('d, 't) run" where
  "delegate E klass folder shots ways shuffle test_shots seed kwargs =
     (if kwargs ''defaults'' = None
      then if kwargs ''klass'' = None
           then helper_with_default_tabular E klass folder shots ways shuffle test_shots seed
                  None kwargs
           else ([], Inl (TypeError_multiple_values ''klass''))
      else ([], Inl (TypeError_multiple_values ''defaults'')))"

definition covertype :: "('d, 't) collaborators \<Rightarrow> string \<Rightarrow> int \<Rightarrow> int \<Rightarrow> bool \<Rightarrow> int option \<Rightarrow>
     int option \<Rightarrow> kwargs \<Rightarrow> ('d, 't) run" where
  "covertype E folder shots ways shuffle test_shots seed kwargs =
     (let tr = (if ways > 3 then [Warn (Split_size ways)] else []);
          r = delegate E (Covertype E) folder shots ways shuffle test_shots seed kwargs
      in (tr @ fst r, snd r))"

definition letter :: "('d, 't) collaborators \<Rightarrow> string \<Rightarrow> int \<Rightarrow> int \<Rightarrow> bool \<Rightarrow> int option \<Rightarrow>
     int option \<Rightarrow> kwargs \<Rightarrow> ('d, 't) run" where
  "letter E folder shots ways shuffle test_shots seed kwargs =
     (let tr = (if ways > 3 then [Warn (Split_size ways)] else []);
          r = delegate E (Letter E) folder shots ways shuffle test_shots seed kwargs
      in (tr @ fst r, snd r))"

subsection \<open>Observing a run\<close>

fun seed_calls :: "('d, 't) event list \<Rightarrow> ('t \<times> int option) list" where
  \<comment> \<open>the calls of \<open>seed\<close> in a run, oldest first: the receiver and the argument\<close>
  "seed_calls [] = []"
| "seed_calls (Seed_call t s # evs) = (t, s) # seed_calls evs"
| "seed_calls (ev # evs) = seed_calls evs"


fun warnings :: "('d, 't) event list \<Rightarrow> warning list" where
  \<comment> \<open>the warnings of a run, oldest first\<close>
  "warnings [] = []"
| "warnings (Warn w # evs) = w # warnings evs"
| "warnings (ev # evs) = warnings evs"

text \<open>
  Collaborators that never raise, to run the model on concrete inputs: the dataset
  classes return a number standing for the dataset, \<open>ClassSplitter\<close> returns the dataset
  with the two sizes it was given, and \<open>seed\<close> leaves the object as it is.
\<close>

definition stub :: "(nat, nat \<times> int \<times> int) collaborators" where
  "stub = \<lparr>Covertype = (\<lambda>folder kw. Inr 7), Letter = (\<lambda>folder kw. Inr 26),
     ClassSplitter = (\<lambda>d shuffle n m. Inr (d, n, m)), dataset_seed = (\<lambda>t s. Inr t)\<rparr>"

section \<open>Properties\<close>

subsection \<open>The keyword dictionary after defaulting\<close>

lemma setdefault_from_apply:
  "setdefault_from D kw k f k' =
     (if k' = k then Some (case kw k of None \<Rightarrow> dict_get D k f | Some v \<Rightarrow> v) else kw k')"
  by (auto simp: setdefault_from_def split: option.splits)

lemma resolve_kwargs_other:
  "k \<noteq> ''transform'' \<Longrightarrow> k \<noteq> ''target_transform'' \<Longrightarrow> k \<noteq> ''class_augmentations'' \<Longrightarrow>
   resolve_kwargs D w kw k = kw k"
  by (simp add: resolve_kwargs_def Let_def setdefault_from_apply)




lemma resolve_kwargs_num_classes:
  "resolve_kwargs D w kw ''num_classes_per_task'' = kw ''num_classes_per_task''"
  by (simp add: resolve_kwargs_other)

subsection \<open>The runs of the builder\<close>

text \<open>
  A run of the builder takes one of four shapes: the duplicated keyword, the dataset class
  raising, \<open>ClassSplitter\<close> raising, or all three calls made (the outcome is then that of
  \<open>seed\<close>).
\<close>

lemma helper_duplicate:
  "kwargs ''num_classes_per_task'' = Some w \<Longrightarrow>
   helper_with_default_tabular E klass folder shots ways shuffle test_shots seed defaults kwargs =
     ([Warn Ways_ignored], Inl (TypeError_multiple_values ''num_classes_per_task''))"
  by (simp add: helper_with_default_tabular_def Let_def resolve_kwargs_num_classes)

lemma helper_run:
  assumes "kwargs ''num_classes_per_task'' = None"
  shows "helper_with_default_tabular E klass folder shots ways shuffle test_shots seed defaults kwargs =
     (case klass folder ((resolve_kwargs (case defaults of None \<Rightarrow> Map.empty | Some m \<Rightarrow> m) (PyInt ways) kwargs)
          (''num_classes_per_task'' \<mapsto> PyInt ways)) of
        Inl e \<Rightarrow> ([Klass_call folder ((resolve_kwargs (case defaults of None \<Rightarrow> Map.empty | Some m \<Rightarrow> m) (PyInt ways) kwargs)
          (''num_classes_per_task'' \<mapsto> PyInt ways))], Inl e)
      | Inr d \<Rightarrow>
          (case ClassSplitter E d shuffle shots (case test_shots of None \<Rightarrow> shots | Some n \<Rightarrow> n) of
             Inl e \<Rightarrow> ([Klass_call folder ((resolve_kwargs (case defaults of None \<Rightarrow> Map.empty | Some m \<Rightarrow> m) (PyInt ways) kwargs)
          (''num_classes_per_task'' \<mapsto> PyInt ways)), ClassSplitter_call d shuffle shots (case test_shots of None \<Rightarrow> shots | Some n \<Rightarrow> n)], Inl e)
           | Inr t \<Rightarrow>
               ([Klass_call folder ((resolve_kwargs (case defaults of None \<Rightarrow> Map.empty | Some m \<Rightarrow> m) (PyInt ways) kwargs)
          (''num_classes_per_task'' \<mapsto> PyInt ways)), ClassSplitter_call d shuffle shots (case test_shots of None \<Rightarrow> shots | Some n \<Rightarrow> n), Seed_call t seed],
                dataset_seed E t seed)))"
  using assms
  by (simp add: helper_with_default_tabular_def Let_def resolve_kwargs_num_classes
      split: sum.splits)

lemma helper_cases:
  obtains (dup) w where "kwargs ''num_classes_per_task'' = Some w"
      "helper_with_default_tabular E klass folder shots ways shuffle test_shots seed defaults kwargs =
         ([Warn Ways_ignored], Inl (TypeError_multiple_values ''num_classes_per_task''))"
  | (klass_raises) e where "kwargs ''num_classes_per_task'' = None"
      "klass folder ((resolve_kwargs (case defaults of None \<Rightarrow> Map.empty | Some m \<Rightarrow> m) (PyInt ways) kwargs)
                   (''num_classes_per_task'' \<mapsto> PyInt ways)) = Inl e"
      "helper_with_default_tabular E klass folder shots ways shuffle test_shots seed defaults kwargs =
         ([Klass_call folder ((resolve_kwargs (case defaults of None \<Rightarrow> Map.empty | Some m \<Rightarrow> m) (PyInt ways) kwargs)
                   (''num_classes_per_task'' \<mapsto> PyInt ways))], Inl e)"
  | (splitter_raises) d e where "kwargs ''num_classes_per_task'' = None"
      "klass folder ((resolve_kwargs (case defaults of None \<Rightarrow> Map.empty | Some m \<Rightarrow> m) (PyInt ways) kwargs)
                   (''num_classes_per_task'' \<mapsto> PyInt ways)) = Inr d"
      "ClassSplitter E d shuffle shots (case test_shots of None \<Rightarrow> shots | Some n \<Rightarrow> n) = Inl e"
      "helper_with_default_tabular E klass folder shots ways shuffle test_shots seed defaults kwargs =
         ([Klass_call folder ((resolve_kwargs (case defaults of None \<Rightarrow> Map.empty | Some m \<Rightarrow> m) (PyInt ways) kwargs)
                   (''num_classes_per_task'' \<mapsto> PyInt ways)),
           ClassSplitter_call d shuffle shots (case test_shots of None \<Rightarrow> shots | Some n \<Rightarrow> n)], Inl e)"
  | (seeded) d t where "kwargs ''num_classes_per_task'' = None"
      "klass folder ((resolve_kwargs (case defaults of None \<Rightarrow> Map.empty | Some m \<Rightarrow> m) (PyInt ways) kwargs)
                   (''num_classes_per_task'' \<mapsto> PyInt ways)) = Inr d"
      "ClassSplitter E d shuffle shots (case test_shots of None \<Rightarrow> shots | Some n \<Rightarrow> n) = Inr t"
      "helper_with_default_tabular E klass folder shots ways shuffle test_shots seed defaults kwargs =
         ([Klass_call folder ((resolve_kwargs (case defaults of None \<Rightarrow> Map.empty | Some m \<Rightarrow> m) (PyInt ways) kwargs)
                   (''num_classes_per_task'' \<mapsto> PyInt ways)),
           ClassSplitter_call d shuffle shots (case test_shots of None \<Rightarrow> shots | Some n \<Rightarrow> n),
           Seed_call t seed], dataset_seed E t seed)"
proof (cases "kwargs ''num_classes_per_task''")
  case (Some w)
  then show ?thesis using dup helper_duplicate by blast
next
  case None
  note run = helper_run [where kwargs = kwargs and E = E and klass = klass and folder = folder
      and shots = shots and ways = ways and shuffle = shuffle and test_shots = test_shots
      and seed = seed and defaults = defaults, OF None]
  show ?thesis
  proof (cases "klass folder ((resolve_kwargs (case defaults of None \<Rightarrow> Map.empty | Some m \<Rightarrow> m) (PyInt ways) kwargs)
                   (''num_classes_per_task'' \<mapsto> PyInt ways))")
    case (Inl e)
    then show ?thesis using klass_raises [OF None] run by simp
  next
    case (Inr d)
    note k = this
    show ?thesis
    proof (cases "ClassSplitter E d shuffle shots (case test_shots of None \<Rightarrow> shots | Some n \<Rightarrow> n)")
      case (Inl e)
      then show ?thesis using splitter_raises [OF None k] run k by simp
    next
      case (Inr t)
      then show ?thesis using seeded [OF None k] run k by simp
    qed
  qed
qed


lemma helper_seed_calls:
  "seed_calls (fst (helper_with_default_tabular E klass folder shots ways shuffle test_shots
       seed defaults kwargs)) =
     (if kwargs ''num_classes_per_task'' = None
      then (case klass folder
                  ((resolve_kwargs (case defaults of None \<Rightarrow> Map.empty | Some m \<Rightarrow> m) (PyInt ways) kwargs)
                     (''num_classes_per_task'' \<mapsto> PyInt ways)) of
              Inl e \<Rightarrow> []
            | Inr d \<Rightarrow>
                (case ClassSplitter E d shuffle shots
                        (case test_shots of None \<Rightarrow> shots | Some n \<Rightarrow> n) of
                   Inl e \<Rightarrow> []
                 | Inr t \<Rightarrow> [(t, seed)]))
      else [])"
  by (cases rule: helper_cases
      [of kwargs E klass folder shots ways shuffle test_shots seed defaults]) auto

lemma helper_events:
  assumes "kwargs ''num_classes_per_task'' = None"
  shows "Klass_call folder ((resolve_kwargs (case defaults of None \<Rightarrow> Map.empty | Some m \<Rightarrow> m) (PyInt ways) kwargs)
            (''num_classes_per_task'' \<mapsto> PyInt ways))
           \<in> set (fst (helper_with_default_tabular E klass folder shots ways shuffle test_shots seed
              defaults kwargs)) \<and>
         (\<forall>d. klass folder ((resolve_kwargs (case defaults of None \<Rightarrow> Map.empty | Some m \<Rightarrow> m) (PyInt ways) kwargs)
            (''num_classes_per_task'' \<mapsto> PyInt ways)) = Inr d \<longrightarrow>
            ClassSplitter_call d shuffle shots (case test_shots of None \<Rightarrow> shots | Some n \<Rightarrow> n)
              \<in> set (fst (helper_with_default_tabular E klass folder shots ways shuffle test_shots seed
              defaults kwargs)) \<and>
            (\<forall>t. ClassSplitter E d shuffle shots (case test_shots of None \<Rightarrow> shots | Some n \<Rightarrow> n) = Inr t \<longrightarrow>
               Seed_call t seed \<in> set (fst (helper_with_default_tabular E klass folder shots ways shuffle test_shots seed
              defaults kwargs)) \<and>
               snd (helper_with_default_tabular E klass folder shots ways shuffle test_shots seed
              defaults kwargs) = dataset_seed E t seed))"
  unfolding helper_run [where kwargs = kwargs, OF assms]
  by (auto split: sum.splits)

lemmas run_defs = helper_with_default_tabular_def Let_def resolve_kwargs_def setdefault_from_def
  dict_get_def stub_def delegate_def covertype_def letter_def

subsection \<open>The override by \<open>num_classes_per_task\<close>\<close>

text \<open>
  Claim C10. When the extra options hold the key \<open>num_classes_per_task\<close>, the defaulting
  steps leave it in the dictionary, so the call of the dataset class receives the keyword
  twice: the run consists of the warning alone and ends with the \<open>TypeError\<close> of the
  duplicated keyword. No dataset class is called and nothing is returned.
\<close>

theorem duplicate_keyword_raises_type_error:
  assumes "kwargs ''num_classes_per_task'' = Some w"
  shows "resolve_kwargs D w' kwargs ''num_classes_per_task'' = Some w \<and>
    helper_with_default_tabular E klass folder shots ways shuffle test_shots seed defaults kwargs =
      ([Warn Ways_ignored], Inl (TypeError_multiple_values ''num_classes_per_task''))"
  using assms by (simp add: helper_duplicate resolve_kwargs_num_classes)

theorem duplicate_keyword_raises_type_error_witness:
  "[''num_classes_per_task'' \<mapsto> PyInt 2] ''num_classes_per_task'' = Some (PyInt 2) \<and>
   helper_with_default_tabular stub (Covertype stub) ''covertype_task_id_2118'' 5 3 True None
       (Some 0) None [''num_classes_per_task'' \<mapsto> PyInt 2] =
     ([Warn Ways_ignored], Inl (TypeError_multiple_values ''num_classes_per_task''))"
  using duplicate_keyword_raises_type_error
    [where kwargs = "[''num_classes_per_task'' \<mapsto> PyInt 2]" and w = "PyInt 2" and E = stub
      and klass = "Covertype stub" and folder = "''covertype_task_id_2118''" and shots = 5
      and ways = 3 and shuffle = True and test_shots = None and seed = "Some 0"
      and defaults = None]
  by simp

text \<open>
  Claim C1 asks that a call with \<open>ways = 3\<close> and \<open>num_classes_per_task = 2\<close> warns once
  and then completes with two classes. Evaluated on collaborators that never raise, the
  builder warns once and raises: the construction does not complete.
\<close>

theorem ways_override_never_completes:
  "helper_with_default_tabular stub (Covertype stub) ''data'' 1 3 True None None None
       [''num_classes_per_task'' \<mapsto> PyInt 2] =
     ([Warn Ways_ignored], Inl (TypeError_multiple_values ''num_classes_per_task''))"
  by (simp add: helper_duplicate)

text \<open>
  Claim C8 asks that the builder raises nothing of its own. Here no collaborator raises,
  and the builder still ends with a \<open>TypeError\<close>: the one of the keyword passed twice.
\<close>

theorem builder_raises_without_collaborator_error:
  "(\<forall>f kw. Letter stub f kw = Inr 26) \<and>
   (\<forall>d sh n m. ClassSplitter stub d sh n m = Inr (d, n, m)) \<and>
   (\<forall>t s. dataset_seed stub t s = Inr t) \<and>
   snd (helper_with_default_tabular stub (Letter stub) ''letter'' 1 5 False (Some 1) (Some 0)
          (Some [''transform'' \<mapsto> PyObject 0])
          [''num_classes_per_task'' \<mapsto> PyInt 3, ''download'' \<mapsto> PyBool True]) =
     Inl (TypeError_multiple_values ''num_classes_per_task'')"
  by (simp add: helper_duplicate stub_def)

subsection \<open>The test shots\<close>





subsection \<open>The keywords of the dataset class\<close>



subsection \<open>The order of construction\<close>

text \<open>
  Claim C4. With \<open>num_classes_per_task\<close> absent from the extra options, the builder
  returns an object \<open>r\<close> exactly when the dataset class, called with the folder and the
  resolved keywords beside \<open>num_classes_per_task = ways\<close>, returns a dataset \<open>d\<close>,
  \<open>ClassSplitter\<close> applied to \<open>d\<close> with \<open>shuffle\<close>, \<open>shots\<close> and the test shots returns
  \<open>t\<close>, and seeding \<open>t\<close> leaves \<open>r\<close>; the run is then these three calls, in this order.
\<close>

theorem construction_order:
  assumes "kwargs ''num_classes_per_task'' = None"
    and "kw = ((resolve_kwargs (case defaults of None \<Rightarrow> Map.empty | Some m \<Rightarrow> m) (PyInt ways) kwargs)
          (''num_classes_per_task'' \<mapsto> PyInt ways))"
    and "ts = (case test_shots of None \<Rightarrow> shots | Some n \<Rightarrow> n)"
  shows "helper_with_default_tabular E klass folder shots ways shuffle test_shots seed defaults kwargs =
           (tr, Inr r) \<longleftrightarrow>
         (\<exists>d t. klass folder kw = Inr d \<and> ClassSplitter E d shuffle shots ts = Inr t \<and>
            dataset_seed E t seed = Inr r \<and>
            tr = [Klass_call folder kw, ClassSplitter_call d shuffle shots ts, Seed_call t seed])"
  unfolding helper_run [where kwargs = kwargs, OF assms(1)] assms(2,3)
  by (auto split: sum.splits)

theorem construction_order_witness:
  "helper_with_default_tabular stub (Covertype stub) ''data'' 5 3 True None (Some 0) None Map.empty =
     ([Klass_call ''data''
         [''transform'' \<mapsto> NumpyToTorch, ''target_transform'' \<mapsto> Categorical (PyInt 3),
          ''class_augmentations'' \<mapsto> PyNone, ''num_classes_per_task'' \<mapsto> PyInt 3],
       ClassSplitter_call 7 True 5 5, Seed_call (7, 5, 5) (Some 0)], Inr (7, 5, 5))"
proof -
  have kw: "[''transform'' \<mapsto> NumpyToTorch, ''target_transform'' \<mapsto> Categorical (PyInt 3),
             ''class_augmentations'' \<mapsto> PyNone, ''num_classes_per_task'' \<mapsto> PyInt 3] =
            (resolve_kwargs (case None of None \<Rightarrow> Map.empty | Some m \<Rightarrow> m) (PyInt 3) Map.empty)
              (''num_classes_per_task'' \<mapsto> PyInt 3)"
    by (simp add: resolve_kwargs_def setdefault_from_def dict_get_def)
  have absent: "(Map.empty :: kwargs) ''num_classes_per_task'' = None"
    by simp
  show ?thesis
    using construction_order [where kwargs = Map.empty and defaults = None and ways = 3
        and test_shots = None and shots = 5 and E = stub and klass = "Covertype stub"
        and folder = "''data''" and shuffle = True and seed = "Some 0" and r = "(7, 5, 5)",
        OF absent kw refl]
    by (simp add: stub_def)
qed

subsection \<open>The seed\<close>

text \<open>
  Claim C6. The calls of \<open>seed\<close> in a run are determined by the arguments: when the extra
  options do not hold \<open>num_classes_per_task\<close>, the dataset class returns \<open>d\<close> and
  \<open>ClassSplitter\<close> on \<open>d\<close> returns \<open>t\<close>, then \<open>seed\<close> is called exactly once, on \<open>t\<close> with
  the caller's value, and the outcome of the run is the outcome of that call; in every
  other run \<open>seed\<close> is not called. With \<open>seed = None\<close> the argument of the call is \<open>None\<close>,
  with \<open>seed = 0\<close> it is \<open>0\<close>, and the two runs differ. So in every run \<open>seed\<close> is called
  at most once and only with the caller's value.
\<close>

theorem seed_called_once_with_callers_seed:
  assumes "R = helper_with_default_tabular E klass folder shots ways shuffle test_shots seed defaults kwargs"
    and "RN = helper_with_default_tabular E klass folder shots ways shuffle test_shots None defaults kwargs"
    and "R0 = helper_with_default_tabular E klass folder shots ways shuffle test_shots (Some 0) defaults kwargs"
    and "kw = (resolve_kwargs (case defaults of None \<Rightarrow> Map.empty | Some m \<Rightarrow> m) (PyInt ways) kwargs)
                (''num_classes_per_task'' \<mapsto> PyInt ways)"
    and "ts = (case test_shots of None \<Rightarrow> shots | Some n \<Rightarrow> n)"
  shows "seed_calls (fst R) =
           (if kwargs ''num_classes_per_task'' = None
            then (case klass folder kw of
                    Inl e \<Rightarrow> []
                  | Inr d \<Rightarrow>
                      (case ClassSplitter E d shuffle shots ts of
                         Inl e \<Rightarrow> []
                       | Inr t \<Rightarrow> [(t, seed)]))
            else []) \<and>
         (kwargs ''num_classes_per_task'' = None \<longrightarrow>
            (\<forall>d t. klass folder kw = Inr d \<and> ClassSplitter E d shuffle shots ts = Inr t \<longrightarrow>
               seed_calls (fst R) = [(t, seed)] \<and> Seed_call t seed \<in> set (fst R) \<and>
               snd R = dataset_seed E t seed \<and>
               seed_calls (fst RN) = [(t, None)] \<and> seed_calls (fst R0) = [(t, Some 0)])) \<and>
         length (seed_calls (fst R)) \<le> 1 \<and>
         (\<forall>t s. (t, s) \<in> set (seed_calls (fst R)) \<longrightarrow> s = seed) \<and>
         (\<forall>d sh n m t. ClassSplitter_call d sh n m \<in> set (fst R) \<and> ClassSplitter E d sh n m = Inr t \<longrightarrow>
            seed_calls (fst R) = [(t, seed)]) \<and>
         (\<forall>r. snd R = Inr r \<longrightarrow> (\<exists>t. seed_calls (fst R) = [(t, seed)] \<and> dataset_seed E t seed = Inr r)) \<and>
         (\<forall>t s. (t, s) \<in> set (seed_calls (fst RN)) \<longrightarrow> s = None) \<and>
         (seed_calls (fst RN) \<noteq> [] \<longrightarrow> seed_calls (fst RN) \<noteq> seed_calls (fst R0))"
proof -
  let ?H = "\<lambda>s. helper_with_default_tabular E klass folder shots ways shuffle test_shots s defaults kwargs"
  have 1: "seed_calls (fst (?H s)) =
           (if kwargs ''num_classes_per_task'' = None
            then (case klass folder kw of
                    Inl e \<Rightarrow> []
                  | Inr d \<Rightarrow>
                      (case ClassSplitter E d shuffle shots ts of
                         Inl e \<Rightarrow> []
                       | Inr t \<Rightarrow> [(t, s)]))
            else [])" for s
    unfolding assms(4,5) by (simp add: helper_seed_calls)
  have 2: "kwargs ''num_classes_per_task'' = None \<longrightarrow>
            (\<forall>d t. klass folder kw = Inr d \<and> ClassSplitter E d shuffle shots ts = Inr t \<longrightarrow>
               seed_calls (fst (?H s)) = [(t, s)] \<and> Seed_call t s \<in> set (fst (?H s)) \<and>
               snd (?H s) = dataset_seed E t s)" for s
    using helper_events [where kwargs = kwargs and test_shots = test_shots and E = E
        and klass = klass and folder = folder and shots = shots and ways = ways
        and shuffle = shuffle and seed = s and defaults = defaults] 1 [of s]
    unfolding assms(4,5) by simp
  have 3: "length (seed_calls (fst (?H s))) \<le> 1 \<and>
         (\<forall>t s'. (t, s') \<in> set (seed_calls (fst (?H s))) \<longrightarrow> s' = s) \<and>
         (\<forall>d sh n m t. ClassSplitter_call d sh n m \<in> set (fst (?H s)) \<and> ClassSplitter E d sh n m = Inr t \<longrightarrow>
            seed_calls (fst (?H s)) = [(t, s)]) \<and>
         (\<forall>r. snd (?H s) = Inr r \<longrightarrow> (\<exists>t. seed_calls (fst (?H s)) = [(t, s)] \<and> dataset_seed E t s = Inr r))"
    for s
    by (cases rule: helper_cases
        [of kwargs E klass folder shots ways shuffle test_shots s defaults]) fastforce+
  have 4: "seed_calls (fst (?H None)) \<noteq> [] \<longrightarrow> seed_calls (fst (?H None)) \<noteq> seed_calls (fst (?H (Some 0)))"
    unfolding 1 by (auto split: sum.splits)
  have 5: "kwargs ''num_classes_per_task'' = None \<longrightarrow>
            (\<forall>d t. klass folder kw = Inr d \<and> ClassSplitter E d shuffle shots ts = Inr t \<longrightarrow>
               seed_calls (fst (?H seed)) = [(t, seed)] \<and> Seed_call t seed \<in> set (fst (?H seed)) \<and>
               snd (?H seed) = dataset_seed E t seed \<and>
               seed_calls (fst (?H None)) = [(t, None)] \<and>
               seed_calls (fst (?H (Some 0))) = [(t, Some 0)])"
    using 2 [of seed] 2 [of None] 2 [of "Some 0"] by blast
  from 3 [of seed] have 6: "length (seed_calls (fst (?H seed))) \<le> 1"
    and 7: "\<forall>t s. (t, s) \<in> set (seed_calls (fst (?H seed))) \<longrightarrow> s = seed"
    and 8: "\<forall>d sh n m t. ClassSplitter_call d sh n m \<in> set (fst (?H seed)) \<and>
              ClassSplitter E d sh n m = Inr t \<longrightarrow> seed_calls (fst (?H seed)) = [(t, seed)]"
    and 9: "\<forall>r. snd (?H seed) = Inr r \<longrightarrow>
              (\<exists>t. seed_calls (fst (?H seed)) = [(t, seed)] \<and> dataset_seed E t seed = Inr r)"
    by blast+
  from 3 [of None] have 10: "\<forall>t s. (t, s) \<in> set (seed_calls (fst (?H None))) \<longrightarrow> s = None"
    by blast
  show ?thesis
    unfolding assms(1,2,3)
    by (intro conjI) (rule 1 [of seed] 5 6 7 8 9 10 4)+
qed

theorem seed_called_once_with_callers_seed_witness:
  "seed_calls (fst (helper_with_default_tabular stub (Covertype stub) ''data'' 5 3 True None None
       None Map.empty)) = [((7, 5, 5), None)] \<and>
   seed_calls (fst (helper_with_default_tabular stub (Covertype stub) ''data'' 5 3 True None (Some 0)
       None Map.empty)) = [((7, 5, 5), Some 0)] \<and>
   snd (helper_with_default_tabular stub (Covertype stub) ''data'' 5 3 True None None
       None Map.empty) = Inr (7, 5, 5)"
proof -
  let ?kw = "(resolve_kwargs (case None of None \<Rightarrow> Map.empty | Some m \<Rightarrow> m) (PyInt 3) Map.empty)
                (''num_classes_per_task'' \<mapsto> PyInt 3)"
  have absent: "(Map.empty :: kwargs) ''num_classes_per_task'' = None"
    by simp
  have c: "Covertype stub ''data'' ?kw = Inr 7"
    by (simp add: stub_def)
  have sp: "ClassSplitter stub 7 True 5 (case None of None \<Rightarrow> 5 | Some n \<Rightarrow> n) = Inr (7, 5, 5)"
    by (simp add: stub_def)
  have sd: "dataset_seed stub (7, 5, 5) None = Inr (7, 5, 5)"
    by (simp add: stub_def)
  note inst = seed_called_once_with_callers_seed [where kwargs = Map.empty and defaults = None
      and ways = 3 and E = stub and klass = "Covertype stub" and folder = "''data''"
      and shots = 5 and shuffle = True and seed = None and test_shots = None,
      OF refl refl refl refl refl]
  from inst absent c sp have "seed_calls (fst (helper_with_default_tabular stub (Covertype stub) ''data'' 5 3 True None None
       None Map.empty)) = [((7, 5, 5), None)] \<and>
   seed_calls (fst (helper_with_default_tabular stub (Covertype stub) ''data'' 5 3 True None (Some 0)
       None Map.empty)) = [((7, 5, 5), Some 0)] \<and>
   snd (helper_with_default_tabular stub (Covertype stub) ''data'' 5 3 True None None
       None Map.empty) = dataset_seed stub (7, 5, 5) None"
    by blast
  with sd show ?thesis by simp
qed

subsection \<open>The entry points and the builder\<close>

lemma helper_no_split_size_warning:
  "Warn (Split_size n) \<notin>
     set (fst (helper_with_default_tabular E klass folder shots ways shuffle test_shots seed defaults kwargs))"
  by (cases rule: helper_cases
      [of kwargs E klass folder shots ways shuffle test_shots seed defaults]) auto

lemma delegate_no_split_size_warning:
  "Warn (Split_size n) \<notin>
     set (fst (delegate E klass folder shots ways shuffle test_shots seed kwargs))"
  by (simp add: delegate_def helper_no_split_size_warning)

lemma delegate_helper:
  "kwargs ''defaults'' = None \<Longrightarrow> kwargs ''klass'' = None \<Longrightarrow>
   delegate E klass folder shots ways shuffle test_shots seed kwargs =
     helper_with_default_tabular E klass folder shots ways shuffle test_shots seed None kwargs"
  by (simp add: delegate_def)

text \<open>
  Claim C5. \<open>covertype\<close> with \<open>ways = 5\<close> first warns about the size of the splits and
  then makes the delegating call, whose events and outcome it passes on; with \<open>ways = 2\<close>
  it is the delegating call alone, and no warning about the size of the splits occurs in
  its run. When the extra options hold neither \<open>defaults\<close> nor \<open>klass\<close>, the delegating
  call is the run of the builder with \<open>defaults = None\<close>.
\<close>

theorem covertype_split_size_warning:
  assumes "D5 = delegate E (Covertype E) folder shots 5 shuffle test_shots seed kwargs"
    and "D2 = delegate E (Covertype E) folder shots 2 shuffle test_shots seed kwargs"
  shows "covertype E folder shots 5 shuffle test_shots seed kwargs =
           (Warn (Split_size 5) # fst D5, snd D5) \<and>
         warnings (fst (covertype E folder shots 5 shuffle test_shots seed kwargs)) =
           Split_size 5 # warnings (fst D5) \<and>
         covertype E folder shots 2 shuffle test_shots seed kwargs = D2 \<and>
         (\<forall>n. Warn (Split_size n) \<notin> set (fst (covertype E folder shots 2 shuffle test_shots seed kwargs))) \<and>
         (kwargs ''defaults'' = None \<and> kwargs ''klass'' = None \<longrightarrow>
            D5 = helper_with_default_tabular E (Covertype E) folder shots 5 shuffle test_shots seed
                   None kwargs \<and>
            D2 = helper_with_default_tabular E (Covertype E) folder shots 2 shuffle test_shots seed
                   None kwargs)"
  unfolding assms
  by (simp add: covertype_def Let_def delegate_no_split_size_warning delegate_helper)

theorem covertype_split_size_warning_witness:
  "covertype stub ''data'' 1 5 True None None Map.empty =
     (Warn (Split_size 5) #
        fst (helper_with_default_tabular stub (Covertype stub) ''data'' 1 5 True None None None Map.empty),
      snd (helper_with_default_tabular stub (Covertype stub) ''data'' 1 5 True None None None Map.empty)) \<and>
   snd (covertype stub ''data'' 1 5 True None None Map.empty) = Inr (7, 1, 1) \<and>
   covertype stub ''data'' 1 2 True None None Map.empty =
     helper_with_default_tabular stub (Covertype stub) ''data'' 1 2 True None None None Map.empty \<and>
   snd (covertype stub ''data'' 1 2 True None None Map.empty) = Inr (7, 1, 1)"
proof -
  note inst = covertype_split_size_warning [OF refl refl, of stub "''data''" 1 True None None Map.empty]
  have 5: "snd (helper_with_default_tabular stub (Covertype stub) ''data'' 1 5 True None None None Map.empty) = Inr (7, 1, 1)"
    by (simp add: run_defs)
  have 2: "snd (helper_with_default_tabular stub (Covertype stub) ''data'' 1 2 True None None None Map.empty) = Inr (7, 1, 1)"
    by (simp add: run_defs)
  from inst 5 2 show ?thesis by simp
qed

text \<open>
  Claim C7. The outcome of \<open>covertype\<close> is the outcome of the delegating call on
  \<open>Covertype\<close>, and the outcome of \<open>letter\<close> the one of the delegating call on \<open>Letter\<close>,
  for all arguments. When the extra options hold neither \<open>defaults\<close> nor \<open>klass\<close>, this is
  the outcome of the builder with the same arguments and \<open>defaults = None\<close>, and the events
  are the builder's after the warning about the size of the splits, if any. Otherwise the
  delegating call raises the \<open>TypeError\<close> of an argument given twice, in both entry
  points: a defaults mapping never reaches the builder through them.
\<close>

theorem entry_points_delegate_without_defaults:
  assumes "w = (if ways > 3 then [Warn (Split_size ways)] else [])"
    and "C = covertype E folder shots ways shuffle test_shots seed kwargs"
    and "L = letter E folder shots ways shuffle test_shots seed kwargs"
  shows "snd C = snd (delegate E (Covertype E) folder shots ways shuffle test_shots seed kwargs) \<and>
         snd L = snd (delegate E (Letter E) folder shots ways shuffle test_shots seed kwargs) \<and>
         (kwargs ''defaults'' = None \<and> kwargs ''klass'' = None \<longrightarrow>
            snd C = snd (helper_with_default_tabular E (Covertype E) folder shots ways shuffle
                           test_shots seed None kwargs) \<and>
            fst C = w @ fst (helper_with_default_tabular E (Covertype E) folder shots ways shuffle
                           test_shots seed None kwargs) \<and>
            snd L = snd (helper_with_default_tabular E (Letter E) folder shots ways shuffle
                           test_shots seed None kwargs) \<and>
            fst L = w @ fst (helper_with_default_tabular E (Letter E) folder shots ways shuffle
                           test_shots seed None kwargs)) \<and>
         (kwargs ''defaults'' = None \<and> kwargs ''klass'' = None \<or>
            (\<exists>k. C = (w, Inl (TypeError_multiple_values k)) \<and>
                 L = (w, Inl (TypeError_multiple_values k))))"
  unfolding assms
  by (auto simp: covertype_def letter_def Let_def delegate_def)

theorem entry_points_delegate_without_defaults_witness:
  "snd (covertype stub ''data'' 1 5 True None (Some 0) [''transform'' \<mapsto> PyObject 4]) = Inr (7, 1, 1) \<and>
   snd (helper_with_default_tabular stub (Covertype stub) ''data'' 1 5 True None (Some 0) None
          [''transform'' \<mapsto> PyObject 4]) = Inr (7, 1, 1) \<and>
   snd (letter stub ''data'' 1 5 True None (Some 0) [''transform'' \<mapsto> PyObject 4]) = Inr (26, 1, 1) \<and>
   snd (helper_with_default_tabular stub (Letter stub) ''data'' 1 5 True None (Some 0) None
          [''transform'' \<mapsto> PyObject 4]) = Inr (26, 1, 1) \<and>
   snd (covertype stub ''data'' 1 5 True None (Some 0) [''defaults'' \<mapsto> PyObject 4]) =
     Inl (TypeError_multiple_values ''defaults'')"
proof -
  note inst = entry_points_delegate_without_defaults [OF refl refl refl, of stub "''data''" 1 5 True
      None "Some 0" "[''transform'' \<mapsto> PyObject 4]"]
  have c: "snd (helper_with_default_tabular stub (Covertype stub) ''data'' 1 5 True None (Some 0) None
          [''transform'' \<mapsto> PyObject 4]) = Inr (7, 1, 1)"
    by (simp add: run_defs)
  have l: "snd (helper_with_default_tabular stub (Letter stub) ''data'' 1 5 True None (Some 0) None
          [''transform'' \<mapsto> PyObject 4]) = Inr (26, 1, 1)"
    by (simp add: run_defs)
  have e: "snd (covertype stub ''data'' 1 5 True None (Some 0) [''defaults'' \<mapsto> PyObject 4]) =
     Inl (TypeError_multiple_values ''defaults'')"
    by (simp add: run_defs)
  have k: "[''transform'' \<mapsto> PyObject 4] ''defaults'' = None \<and>
           [''transform'' \<mapsto> PyObject 4] ''klass'' = None"
    by simp
  from inst k
  have "snd (covertype stub ''data'' 1 5 True None (Some 0) [''transform'' \<mapsto> PyObject 4]) =
          snd (helper_with_default_tabular stub (Covertype stub) ''data'' 1 5 True None (Some 0) None
            [''transform'' \<mapsto> PyObject 4])"
    and "snd (letter stub ''data'' 1 5 True None (Some 0) [''transform'' \<mapsto> PyObject 4]) =
          snd (helper_with_default_tabular stub (Letter stub) ''data'' 1 5 True None (Some 0) None
            [''transform'' \<mapsto> PyObject 4])"
    by blast+
  with c l e show ?thesis by simp
qed

end
